theory Spec2Isabelle
  imports Main "HOL-Library.Word"
begin

unbundle bit_operations_syntax

section \<open>Bytes, errors and the hex codec of the standard library\<close>

type_synonym byte = "8 word"
type_synonym uint64 = "64 word"
type_synonym int64 = "64 word"

text \<open>
  Go's \<^verbatim>\<open>error\<close> values that \<^verbatim>\<open>types/genesis.go\<close> and \<^verbatim>\<open>client/cli/tx.go\<close> can return.
  The module's registered errors are the roots; \<^verbatim>\<open>sdkerrors.Wrap\<close> and \<^verbatim>\<open>sdkerrors.Wrapf\<close>
  keep the root and add a description (for \<^verbatim>\<open>Wrapf\<close> and \<^verbatim>\<open>fmt.Errorf\<close> the format string and
  its integer arguments are kept unformatted). \<^verbatim>\<open>InvalidByteError\<close> and \<^verbatim>\<open>ErrLength\<close> are the
  two errors of \<^verbatim>\<open>encoding/hex\<close>. \<open>Foreign\<close> is an error produced by a collaborator outside
  this repository (address and coin parsing, the random source, broadcasting).
\<close>

datatype error =
    ErrInvalidHashLock
  | ErrInvalidSecretLength
  | ErrDuplicateHashLock
  | ErrHTLCNotFound
  | ErrHTLCNotOpen
  | ErrHTLCExpired
  | ErrHTLCNotExpired
  | ErrHashLockMismatch
  | ErrInsufficientFunds
  | ErrInvalidAmount
  | ErrInvalidAddress
  | ErrInvalidTimeLock
  | InvalidByteError char
  | ErrLength
  | Wrap error string
  | Wrapf error string "nat list"
  | Errorf string "nat list"
  | Foreign string

text \<open>The registered error a wrapped error was built from (what \<^verbatim>\<open>errors.Is\<close> compares).\<close>

fun root_cause :: "error \<Rightarrow> error" where
  "root_cause (Wrap e _) = root_cause e"
| "root_cause (Wrapf e _ _) = root_cause e"
| "root_cause e = e"

text \<open>
  \<^verbatim>\<open>encoding/hex\<close>: \<^verbatim>\<open>fromHexChar\<close> accepts \<^verbatim>\<open>0-9\<close>, \<^verbatim>\<open>a-f\<close> and \<^verbatim>\<open>A-F\<close>.
\<close>

definition fromHexChar :: "char \<Rightarrow> byte option" where
  "fromHexChar c =
     (let n = (of_char c :: nat) in
      if 48 \<le> n \<and> n \<le> 57 then Some (of_nat (n - 48))
      else if 97 \<le> n \<and> n \<le> 102 then Some (of_nat (n - 97 + 10))
      else if 65 \<le> n \<and> n \<le> 70 then Some (of_nat (n - 65 + 10))
      else None)"

text \<open>
  \<^verbatim>\<open>hex.DecodeString\<close>: the pairs are decoded from the left, the first character that is
  not a hex digit gives \<^verbatim>\<open>InvalidByteError\<close>; a single trailing character is checked for
  being a hex digit before \<^verbatim>\<open>ErrLength\<close> is reported. On an error both callers in this
  repository return at once, so the partial output is not part of the result.
\<close>

fun DecodeString :: "string \<Rightarrow> error + byte list" where
  "DecodeString [] = Inr []"
| "DecodeString [c] =
     (case fromHexChar c of
        None \<Rightarrow> Inl (InvalidByteError c)
      | Some _ \<Rightarrow> Inl ErrLength)"
| "DecodeString (p # q # rest) =
     (case fromHexChar p of
        None \<Rightarrow> Inl (InvalidByteError p)
      | Some a \<Rightarrow>
          (case fromHexChar q of
             None \<Rightarrow> Inl (InvalidByteError q)
           | Some b \<Rightarrow>
               (case DecodeString rest of
                  Inl err \<Rightarrow> Inl err
                | Inr bs \<Rightarrow> Inr ((push_bit 4 a OR b) # bs))))"

text \<open>\<^verbatim>\<open>hex.EncodeToString\<close>: two lower-case digits for each byte.\<close>

definition hextable :: string where
  "hextable = ''0123456789abcdef''"

fun EncodeToString :: "byte list \<Rightarrow> string" where
  "EncodeToString [] = []"
| "EncodeToString (v # vs) =
     hextable ! unat (drop_bit 4 v) # hextable ! unat (v AND 15) # EncodeToString vs"

section \<open>The HTLC entity and the genesis state (\<^verbatim>\<open>types/genesis.go\<close>)\<close>

text \<open>
  Modelled from the spec: the declarations of \<^verbatim>\<open>HTLCState\<close> and of the \<^verbatim>\<open>HTLC\<close> struct are
  not among the sources. The states are the four of the data model; the fields are those of
  the entity object of the genesis snapshot (the hash lock is the key of the snapshot's
  map, not a field of the entity object).
\<close>

datatype HTLCState = Open | Completed | Expired | Refunded

record HTLC =
  Sender :: "byte list"
  To :: "byte list"
  ReceiverOnOtherChain :: string
  Amount :: "(string \<times> nat) list"
  Secret :: "byte list"
  Timestamp :: nat
  ExpirationHeight :: nat
  State :: HTLCState

record GenesisState =
  PendingHTLCs :: "string \<rightharpoonup> HTLC"

definition NewGenesisState :: "(string \<rightharpoonup> HTLC) \<Rightarrow> GenesisState" where
  "NewGenesisState pendingHTLCs = \<lparr>PendingHTLCs = pendingHTLCs\<rparr>"

definition DefaultGenesisState :: GenesisState where
  "DefaultGenesisState = \<lparr>PendingHTLCs = Map.empty\<rparr>"

text \<open>
  A \<^verbatim>\<open>for ... range\<close> over a Go map yields every key of the map exactly once, in an order the
  language leaves unspecified (the runtime randomises it). The order of one execution of
  the loop is the list \<open>order\<close>; \<open>range_order m order\<close> says that the list is an order the
  runtime may choose for the map \<open>m\<close>.
\<close>

definition range_order :: "('k \<rightharpoonup> 'v) \<Rightarrow> 'k list \<Rightarrow> bool" where
  "range_order m order \<longleftrightarrow> distinct order \<and> set order = dom m"

text \<open>
  The body of the loop of \<^verbatim>\<open>ValidateGenesis\<close> for one entry: \<open>Some err\<close> is the
  \<^verbatim>\<open>return err\<close> of the body, \<open>None\<close> is reaching the end of the body. \<^verbatim>\<open>HashLockLength\<close> and
  the method \<^verbatim>\<open>HTLC.Validate\<close> are declared in files that are not among the sources: both are
  parameters.
\<close>

definition ValidateGenesis_body ::
  "(HTLC \<Rightarrow> error option) \<Rightarrow> nat \<Rightarrow> string \<Rightarrow> HTLC \<Rightarrow> error option" where
  "ValidateGenesis_body Validate HashLockLength hashLockStr htlc =
     (case DecodeString hashLockStr of
        Inl err \<Rightarrow> Some err
      | Inr hashLock \<Rightarrow>
          if length hashLock \<noteq> HashLockLength
          then Some (Wrapf ErrInvalidHashLock
                 ''length of the hash lock must be %d in bytes'' [HashLockLength])
          else if State htlc \<noteq> Open
          then Some (Wrap ErrHTLCNotOpen hashLockStr)
          else (case Validate htlc of
                  Some err \<Rightarrow> Some err
                | None \<Rightarrow> None))"

text \<open>
  The loop, over the keys in the order of this execution. A key that is not in the map is
  never yielded by \<^verbatim>\<open>range\<close>; the model passes over it.
\<close>

fun ValidateGenesis_range ::
  "(HTLC \<Rightarrow> error option) \<Rightarrow> nat \<Rightarrow> (string \<rightharpoonup> HTLC) \<Rightarrow> string list \<Rightarrow> error option" where
  "ValidateGenesis_range Validate HashLockLength m [] = None"
| "ValidateGenesis_range Validate HashLockLength m (hashLockStr # rest) =
     (case m hashLockStr of
        None \<Rightarrow> ValidateGenesis_range Validate HashLockLength m rest
      | Some htlc \<Rightarrow>
          (case ValidateGenesis_body Validate HashLockLength hashLockStr htlc of
             Some err \<Rightarrow> Some err
           | None \<Rightarrow> ValidateGenesis_range Validate HashLockLength m rest))"

definition ValidateGenesis ::
  "(HTLC \<Rightarrow> error option) \<Rightarrow> nat \<Rightarrow> string list \<Rightarrow> GenesisState \<Rightarrow> error option" where
  "ValidateGenesis Validate HashLockLength order data =
     ValidateGenesis_range Validate HashLockLength (PendingHTLCs data) order"

section \<open>The create command (\<^verbatim>\<open>client/cli/tx.go\<close>)\<close>

type_synonym Coins = "(string \<times> nat) list"

text \<open>
  Modelled from the spec: \<^verbatim>\<open>SecretLength\<close> is declared in a file that is not among the
  sources. Scenario A of the spec derives a hash lock from a secret of 32 bytes, and the
  derivation fails unless the secret has \<^verbatim>\<open>SecretLength\<close> bytes.
\<close>

definition SecretLength :: nat where
  "SecretLength = 32"

text \<open>
  Modelled from the spec: the message type and its constructor \<^verbatim>\<open>NewMsgCreateHTLC\<close> are not
  among the sources. The message carries the inputs of the Create handler; the constructor
  takes them in the order of the call in \<^verbatim>\<open>GetCmdCreateHTLC\<close>.
\<close>

record MsgCreateHTLC =
  MsgSender :: "byte list"
  MsgTo :: "byte list"
  MsgReceiverOnOtherChain :: string
  MsgAmount :: Coins
  MsgHashLock :: "byte list"
  MsgTimestamp :: uint64
  MsgTimeLock :: uint64

definition NewMsgCreateHTLC ::
  "byte list \<Rightarrow> byte list \<Rightarrow> string \<Rightarrow> Coins \<Rightarrow> byte list \<Rightarrow> uint64 \<Rightarrow> uint64 \<Rightarrow> MsgCreateHTLC" where
  "NewMsgCreateHTLC sender to receiverOnOtherChain amount hashLock timestamp timeLock =
     \<lparr>MsgSender = sender, MsgTo = to, MsgReceiverOnOtherChain = receiverOnOtherChain,
      MsgAmount = amount, MsgHashLock = hashLock, MsgTimestamp = timestamp,
      MsgTimeLock = timeLock\<rparr>"

text \<open>
  What the command calls and this repository's sources do not contain: the address of the
  \<^verbatim>\<open>--from\<close> key, the parsers of the SDK, \<^verbatim>\<open>crypto/rand\<close> (whether \<^verbatim>\<open>rand.Read\<close> fails, and the
  byte it writes at each index of the slice), \<^verbatim>\<open>types.GetHashLock\<close>, \<^verbatim>\<open>ValidateBasic\<close> of the
  message, the SDK's \<^verbatim>\<open>GenerateOrBroadcastMsgs\<close>, and the Unicode-aware \<^verbatim>\<open>strings.TrimFunc\<close>
  with \<^verbatim>\<open>unicode.IsSpace\<close> that \<^verbatim>\<open>strings.TrimSpace\<close> falls back to on a non-ASCII byte.
\<close>

record Collaborators =
  GetFromAddress :: "byte list"
  AccAddressFromBech32 :: "string \<Rightarrow> error + byte list"
  ParseCoins :: "string \<Rightarrow> error + Coins"
  rand_Read_err :: "error option"
  rand_Read_byte :: "nat \<Rightarrow> byte"
  GetHashLock :: "byte list \<Rightarrow> uint64 \<Rightarrow> byte list"
  ValidateBasic :: "MsgCreateHTLC \<Rightarrow> error option"
  GenerateOrBroadcastMsgs :: "MsgCreateHTLC list \<Rightarrow> error option"
  TrimFunc_IsSpace :: "string \<Rightarrow> string"

text \<open>
  The flags of one invocation, as \<^verbatim>\<open>viper\<close> and \<^verbatim>\<open>cmd.Flags()\<close> present them. \<^verbatim>\<open>--to\<close>,
  \<^verbatim>\<open>--amount\<close> and \<^verbatim>\<open>--time-lock\<close> are marked required. For \<^verbatim>\<open>--secret\<close> and \<^verbatim>\<open>--hash-lock\<close>,
  \<open>None\<close> is a flag that was not given and \<open>Some v\<close> one given with the value \<open>v\<close>.
  \<^verbatim>\<open>--timestamp\<close> and \<^verbatim>\<open>--time-lock\<close> are the \<^verbatim>\<open>int64\<close> values that \<^verbatim>\<open>viper.GetInt64\<close> returns
  (64 bits, read as two's complement by \<open>sint\<close>).
\<close>

record CreateFlags =
  FlagTo :: string
  FlagReceiverOnOtherChain :: string
  FlagAmount :: string
  FlagSecret :: "string option"
  FlagHashLock :: "string option"
  FlagTimestamp :: int64
  FlagTimeLock :: int64

definition Changed :: "string option \<Rightarrow> bool" where
  "Changed flag \<longleftrightarrow> flag \<noteq> None"

text \<open>
  Modelled from the spec: the flag set \<^verbatim>\<open>FsCreateHTLC\<close> with the flags' default values is
  declared in a file that is not among the sources. A string flag that was not given reads
  as the empty string (by the spec, omitting both \<^verbatim>\<open>secret\<close> and \<^verbatim>\<open>hash-lock\<close> makes the
  command generate the secret).
\<close>

definition GetString :: "string option \<Rightarrow> string" where
  "GetString flag = (case flag of None \<Rightarrow> [] | Some v \<Rightarrow> v)"

text \<open>
  \<^verbatim>\<open>strings.TrimSpace\<close>: the ASCII white space is cut from the left, then from the right; at
  the first byte \<open>\<ge> 0x80\<close> met on either side the rest of the work is handed to the
  Unicode-aware \<^verbatim>\<open>TrimFunc\<close>, applied to what is left of the string at that moment.
\<close>

definition asciiSpace :: "char \<Rightarrow> bool" where
  "asciiSpace c \<longleftrightarrow> c \<in> set [CHR 0x09, CHR 0x0A, CHR 0x0B, CHR 0x0C, CHR 0x0D, CHR 0x20]"

fun TrimSpace_stop :: "(string \<Rightarrow> string) \<Rightarrow> string \<Rightarrow> string" where
  "TrimSpace_stop uni [] = []"
| "TrimSpace_stop uni (c # before) =
     (if (of_char c :: nat) \<ge> 128 then uni (rev (c # before))
      else if asciiSpace c then TrimSpace_stop uni before
      else rev (c # before))"

fun TrimSpace_start :: "(string \<Rightarrow> string) \<Rightarrow> string \<Rightarrow> string" where
  "TrimSpace_start uni [] = []"
| "TrimSpace_start uni (c # rest) =
     (if (of_char c :: nat) \<ge> 128 then uni (c # rest)
      else if asciiSpace c then TrimSpace_start uni rest
      else TrimSpace_stop uni (rev (c # rest)))"

definition TrimSpace :: "Collaborators \<Rightarrow> string \<Rightarrow> string" where
  "TrimSpace env s = TrimSpace_start (TrimFunc_IsSpace env) s"

text \<open>
  The conversion \<^verbatim>\<open>uint64(v)\<close> of an \<^verbatim>\<open>int64\<close>: the value is sign-extended and cut to 64 bits.
\<close>

definition uint64_of_int64 :: "int64 \<Rightarrow> uint64" where
  "uint64_of_int64 v = word_of_int (sint v)"

text \<open>
  What an execution of the command leaves behind: the messages that
  \<^verbatim>\<open>NewMsgCreateHTLC\<close> built, the batches handed to \<^verbatim>\<open>GenerateOrBroadcastMsgs\<close>, and what
  the command's own \<^verbatim>\<open>fmt.Println\<close> and \<^verbatim>\<open>fmt.Printf\<close> calls wrote, one entry for each call.
\<close>

record Effects =
  built :: "MsgCreateHTLC list"
  sent :: "MsgCreateHTLC list list"
  printed :: "string list"

definition no_effects :: Effects where
  "no_effects = \<lparr>built = [], sent = [], printed = []\<rparr>"

definition Println :: "string \<Rightarrow> Effects \<Rightarrow> Effects" where
  "Println line st = st\<lparr>printed := printed st @ [line @ [CHR 0x0A]]\<rparr>"

text \<open>The \<^verbatim>\<open>Printf\<close> of the secret and the hash lock, with both \<^verbatim>\<open>%s\<close> filled in.\<close>

definition Printf_Secret_HashLock :: "string \<Rightarrow> string \<Rightarrow> Effects \<Rightarrow> Effects" where
  "Printf_Secret_HashLock secretHex hashLockHex st =
     st\<lparr>printed := printed st @
       [''Secret:      '' @ secretHex @ [CHR 0x0A] @ ''HashLock:    '' @ hashLockHex @ [CHR 0x0A]]\<rparr>"

text \<open>\<^verbatim>\<open>preCheckCmd\<close>, the \<^verbatim>\<open>PreRunE\<close> of the create command.\<close>

definition preCheckCmd :: "CreateFlags \<Rightarrow> error option" where
  "preCheckCmd flags =
     (if Changed (FlagSecret flags) \<and> Changed (FlagHashLock flags)
      then Some (Errorf ''can not provide both the secret and hash lock'' [])
      else None)"

text \<open>
  Lines 82 to 108 of \<^verbatim>\<open>RunE\<close>: the secret and the hash lock of the message. The slice
  \<^verbatim>\<open>secret\<close> is made with 32 zero bytes; \<^verbatim>\<open>rand.Read\<close> overwrites each of them.
\<close>

definition CreateHTLC_locks :: "Collaborators \<Rightarrow> CreateFlags \<Rightarrow> error + (byte list \<times> byte list)" where
  "CreateHTLC_locks env flags =
     (let timestamp = FlagTimestamp flags;
          secret = replicate 32 (0 :: byte)
      in if Changed (FlagHashLock flags) then
           (let hashLockStr = TrimSpace env (GetString (FlagHashLock flags))
            in case DecodeString hashLockStr of
                 Inl err \<Rightarrow> Inl err
               | Inr hashLock \<Rightarrow> Inr (secret, hashLock))
         else
           (let secretStr = TrimSpace env (GetString (FlagSecret flags))
            in case (if length secretStr > 0 then
                       (if length secretStr \<noteq> 2 * SecretLength
                        then Inl (Errorf ''length of the secret must be %d in bytes'' [SecretLength])
                        else DecodeString secretStr)
                     else
                       (case rand_Read_err env of
                          Some err \<Rightarrow> Inl err
                        | None \<Rightarrow> Inr (map (rand_Read_byte env) [0 ..< length secret]))) of
                 Inl err \<Rightarrow> Inl err
               | Inr secret \<Rightarrow>
                   Inr (secret, GetHashLock env secret (uint64_of_int64 timestamp))))"

text \<open>The \<^verbatim>\<open>RunE\<close> of the create command.\<close>

definition CreateHTLC_RunE :: "Collaborators \<Rightarrow> CreateFlags \<Rightarrow> Effects \<Rightarrow> error option \<times> Effects" where
  "CreateHTLC_RunE env flags st =
     (let sender = GetFromAddress env
      in case AccAddressFromBech32 env (FlagTo flags) of
           Inl err \<Rightarrow> (Some err, st)
         | Inr to \<Rightarrow>
      (let receiverOnOtherChain = FlagReceiverOnOtherChain flags
       in case ParseCoins env (FlagAmount flags) of
            Inl err \<Rightarrow> (Some err, st)
          | Inr amount \<Rightarrow>
      (let timestamp = FlagTimestamp flags;
           timeLock = FlagTimeLock flags
       in case CreateHTLC_locks env flags of
            Inl err \<Rightarrow> (Some err, st)
          | Inr (secret, hashLock) \<Rightarrow>
      (let msg = NewMsgCreateHTLC sender to receiverOnOtherChain amount
                   hashLock (uint64_of_int64 timestamp) (uint64_of_int64 timeLock);
           st1 = st\<lparr>built := built st @ [msg]\<rparr>
       in case ValidateBasic env msg of
            Some err \<Rightarrow> (Some err, st1)
          | None \<Rightarrow>
      (let err = GenerateOrBroadcastMsgs env [msg];
           st2 = st1\<lparr>sent := sent st1 @ [[msg]]\<rparr>
       in if err = None \<and> \<not> Changed (FlagHashLock flags) then
            (err,
             Printf_Secret_HashLock (EncodeToString secret) (EncodeToString hashLock)
               (Println []
                 (Println ''It is the only way to claim or refund the locked coins from an HTLC''
                   (Println ''**Important** save this secret, hashLock in a safe place.'' st2))))
          else (err, st2))))))"

text \<open>
  One execution of the command by \<^verbatim>\<open>cobra\<close>: \<^verbatim>\<open>PreRunE\<close> runs first, and when it returns an
  error the execution ends with that error and \<^verbatim>\<open>RunE\<close> is not called.
\<close>

definition CreateHTLC_Execute :: "Collaborators \<Rightarrow> CreateFlags \<Rightarrow> Effects \<Rightarrow> error option \<times> Effects" where
  "CreateHTLC_Execute env flags st =
     (case preCheckCmd flags of
        Some err \<Rightarrow> (Some err, st)
      | None \<Rightarrow> CreateHTLC_RunE env flags st)"

section \<open>Example inputs\<close>

text \<open>
  Concrete entities, keys and snapshots on which the properties below are evaluated. The
  keys \<open>key_a\<close> and \<open>key_b\<close> are 64 hex digits (32 bytes), \<open>key_bad\<close> is not hex, and
  \<open>key_short\<close> decodes to two bytes. \<open>example_Validate\<close> stands for \<^verbatim>\<open>HTLC.Validate\<close>.
\<close>

definition example_htlc :: "HTLCState \<Rightarrow> HTLC" where
  "example_htlc s =
     \<lparr>Sender = [1], To = [2], ReceiverOnOtherChain = ''peer'', Amount = [(''stake'', 100)],
      Secret = [], Timestamp = 1000, ExpirationHeight = 60, State = s\<rparr>"

definition example_Validate :: "HTLC \<Rightarrow> error option" where
  "example_Validate h = (if Amount h = [] then Some ErrInvalidAmount else None)"

definition key_a :: string where
  "key_a = ''00000000000000000000000000000000000000000000000000000000000000aa''"

definition key_b :: string where
  "key_b = ''00000000000000000000000000000000000000000000000000000000000000bb''"

definition key_bad :: string where
  "key_bad = ''zz''"

definition key_short :: string where
  "key_short = ''00ff''"

definition snapshot_two_invalid :: GenesisState where
  "snapshot_two_invalid = NewGenesisState [key_bad \<mapsto> example_htlc Open, key_a \<mapsto> example_htlc Completed]"

definition snapshot_one_invalid :: GenesisState where
  "snapshot_one_invalid = NewGenesisState [key_a \<mapsto> example_htlc Open, key_b \<mapsto> example_htlc Refunded]"

definition snapshot_valid :: GenesisState where
  "snapshot_valid = NewGenesisState [key_a \<mapsto> example_htlc Open, key_b \<mapsto> example_htlc Open]"

definition snapshot_bad_key :: GenesisState where
  "snapshot_bad_key = NewGenesisState [key_bad \<mapsto> example_htlc Open]"

definition snapshot_three :: GenesisState where
  "snapshot_three = NewGenesisState
     [key_a \<mapsto> example_htlc Open, key_short \<mapsto> example_htlc Open, key_b \<mapsto> example_htlc Completed]"

text \<open>
  Collaborators that accept every non-empty input, with a fixed stream of bytes for the
  random source and a stand-in for \<^verbatim>\<open>GetHashLock\<close>; invocations of the create command.
\<close>

definition example_env :: Collaborators where
  "example_env =
     \<lparr>GetFromAddress = [1],
      AccAddressFromBech32 = (\<lambda>s. if s = [] then Inl (Foreign ''empty address'') else Inr (map of_char s)),
      ParseCoins = (\<lambda>s. if s = [] then Inl (Foreign ''invalid coins'') else Inr [(s, 1)]),
      rand_Read_err = None,
      rand_Read_byte = (\<lambda>i. of_nat (7 * i + 3)),
      GetHashLock = (\<lambda>secret timestamp. map (\<lambda>b. b + ucast timestamp) secret),
      ValidateBasic = (\<lambda>msg. if MsgAmount msg = [] then Some ErrInvalidAmount else None),
      GenerateOrBroadcastMsgs = (\<lambda>msgs. None),
      TrimFunc_IsSpace = (\<lambda>s. s)\<rparr>"

definition flags_neither :: CreateFlags where
  "flags_neither =
     \<lparr>FlagTo = ''recipient'', FlagReceiverOnOtherChain = ''peer'', FlagAmount = ''100stake'',
      FlagSecret = None, FlagHashLock = None, FlagTimestamp = 1000, FlagTimeLock = 50\<rparr>"

definition flags_both :: CreateFlags where
  "flags_both = flags_neither\<lparr>FlagSecret := Some key_a, FlagHashLock := Some key_a\<rparr>"

definition flags_empty_secret :: CreateFlags where
  "flags_empty_secret = flags_neither\<lparr>FlagSecret := Some []\<rparr>"

definition flags_secret :: CreateFlags where
  "flags_secret = flags_neither\<lparr>FlagSecret := Some key_a\<rparr>"

definition flags_short_secret :: CreateFlags where
  "flags_short_secret = flags_neither\<lparr>FlagSecret := Some ''00ff''\<rparr>"

definition flags_negative :: CreateFlags where
  "flags_negative = flags_neither\<lparr>FlagHashLock := Some key_a, FlagTimestamp := - 1, FlagTimeLock := - 50\<rparr>"

lemmas example_defs = example_htlc_def example_Validate_def key_a_def key_b_def key_bad_def key_short_def
  snapshot_two_invalid_def snapshot_one_invalid_def snapshot_valid_def snapshot_bad_key_def
  snapshot_three_def NewGenesisState_def

section \<open>The loop of \<^verbatim>\<open>ValidateGenesis\<close>\<close>

lemma ValidateGenesis_body_None_iff:
  "ValidateGenesis_body Validate HashLockLength k h = None \<longleftrightarrow>
     (\<exists>bs. DecodeString k = Inr bs \<and> length bs = HashLockLength) \<and> State h = Open \<and> Validate h = None"
  by (auto simp: ValidateGenesis_body_def split: sum.splits option.splits)

lemma ValidateGenesis_range_None_iff:
  "ValidateGenesis_range Validate HashLockLength m ks = None \<longleftrightarrow>
     (\<forall>k \<in> set ks. \<forall>h. m k = Some h \<longrightarrow> ValidateGenesis_body Validate HashLockLength k h = None)"
  by (induction ks) (auto split: option.splits)

lemma ValidateGenesis_range_Some:
  "ValidateGenesis_range Validate HashLockLength m ks = Some e \<Longrightarrow>
     \<exists>k \<in> set ks. \<exists>h. m k = Some h \<and> ValidateGenesis_body Validate HashLockLength k h = Some e"
  by (induction ks) (auto split: option.splits)

lemma ValidateGenesis_range_append:
  "ValidateGenesis_range Validate HashLockLength m (pre @ post) =
     (case ValidateGenesis_range Validate HashLockLength m pre of
        Some e \<Rightarrow> Some e
      | None \<Rightarrow> ValidateGenesis_range Validate HashLockLength m post)"
  by (induction pre) (auto split: option.splits)

lemma ValidateGenesis_range_first_violation:
  assumes pre: "\<forall>k' \<in> set pre. \<forall>h'. m k' = Some h' \<longrightarrow> ValidateGenesis_body Validate HashLockLength k' h' = None"
      and k: "m k = Some h"
  shows "ValidateGenesis_range Validate HashLockLength m (pre @ k # post) =
           (case ValidateGenesis_body Validate HashLockLength k h of
              Some e \<Rightarrow> Some e
            | None \<Rightarrow> ValidateGenesis_range Validate HashLockLength m post)"
proof -
  have "ValidateGenesis_range Validate HashLockLength m pre = None"
    using pre by (simp add: ValidateGenesis_range_None_iff)
  then show ?thesis
    using k by (simp add: ValidateGenesis_range_append)
qed

section \<open>The hex codec, \<^verbatim>\<open>TrimSpace\<close> and the conversion to \<^verbatim>\<open>uint64\<close>\<close>

lemma uint64_of_int64_id: "uint64_of_int64 v = v"
  by (simp add: uint64_of_int64_def)

lemma uint_uint64_of_int64: "uint (uint64_of_int64 v) = sint v mod 2 ^ 64"
proof -
  have "uint (word_of_int (sint v) :: 64 word) = take_bit LENGTH(64) (sint v)"
    by (rule uint_word_of_int_eq)
  then show ?thesis
    by (simp only: uint64_of_int64_def take_bit_eq_mod) simp
qed

lemma asciiSpace_le: "asciiSpace c \<Longrightarrow> (of_char c :: nat) \<le> 32"
  by (auto simp: asciiSpace_def)

lemma fromHexChar_range:
  "fromHexChar c = Some d \<Longrightarrow> 48 \<le> (of_char c :: nat) \<and> (of_char c :: nat) \<le> 102"
  by (auto simp: fromHexChar_def Let_def split: if_splits)

lemma fromHexChar_not_space:
  "fromHexChar c = Some d \<Longrightarrow> \<not> asciiSpace c \<and> (of_char c :: nat) < 128"
  using asciiSpace_le [of c] fromHexChar_range [of c d] by auto

lemma DecodeString_all_hex:
  "DecodeString s = Inr bs \<Longrightarrow> \<forall>c \<in> set s. fromHexChar c \<noteq> None"
  by (induction s arbitrary: bs rule: DecodeString.induct)
     (auto split: option.splits sum.splits)

lemma DecodeString_length:
  "DecodeString s = Inr bs \<Longrightarrow> length s = 2 * length bs"
  by (induction s arbitrary: bs rule: DecodeString.induct)
     (auto split: option.splits sum.splits)

lemma TrimSpace_stop_keeps:
  assumes "s \<noteq> []" and "\<not> asciiSpace (last s)" and "(of_char (last s) :: nat) < 128"
  shows "TrimSpace_stop uni (rev s) = s"
proof -
  obtain c before where r: "rev s = c # before"
    using assms(1) by (cases "rev s") auto
  then have "last s = c"
    by (metis last_rev list.sel(1) rev_rev_ident hd_rev)
  then show ?thesis
    using assms r by (metis TrimSpace_stop.simps(2) not_le rev_rev_ident)
qed

lemma TrimSpace_hex:
  assumes "DecodeString s = Inr bs"
  shows "TrimSpace env s = s"
proof (cases s)
  case Nil
  then show ?thesis by (simp add: TrimSpace_def)
next
  case (Cons c rest)
  have hex: "\<forall>c \<in> set s. \<not> asciiSpace c \<and> (of_char c :: nat) < 128"
    using DecodeString_all_hex [OF assms] fromHexChar_not_space by blast
  have ne: "s \<noteq> []" using Cons by simp
  then have "last s \<in> set s"
    by (rule last_in_set)
  then have l: "\<not> asciiSpace (last s)" "(of_char (last s) :: nat) < 128"
    using hex by blast+
  from ne have stop: "TrimSpace_stop (TrimFunc_IsSpace env) (rev s) = s"
    using l by (rule TrimSpace_stop_keeps)
  have "\<not> asciiSpace c" "(of_char c :: nat) < 128"
    using hex Cons by auto
  then have "TrimSpace_start (TrimFunc_IsSpace env) (c # rest) =
               TrimSpace_stop (TrimFunc_IsSpace env) (rev (c # rest))"
    by simp
  then show ?thesis
    using stop Cons by (simp add: TrimSpace_def)
qed

text \<open>
  \<^verbatim>\<open>hex.EncodeToString\<close> writes two hex digits for each byte, and \<^verbatim>\<open>hex.DecodeString\<close> reads
  them back: what is printed in hex determines the bytes.
\<close>

lemma hextable_digit:
  assumes "k < 16"
  shows "fromHexChar (hextable ! k) = Some (of_nat k)"
proof -
  have "k = 0 \<or> k = 1 \<or> k = 2 \<or> k = 3 \<or> k = 4 \<or> k = 5 \<or> k = 6 \<or> k = 7 \<or>
        k = 8 \<or> k = 9 \<or> k = 10 \<or> k = 11 \<or> k = 12 \<or> k = 13 \<or> k = 14 \<or> k = 15"
    using assms by arith
  then show ?thesis
    by (auto simp: hextable_def fromHexChar_def)
qed

lemma unat_high_nibble: "unat (drop_bit 4 (v :: byte)) < 16"
proof -
  have "unat v < 2 ^ LENGTH(8)"
    by (rule unsigned_less)
  moreover have "unat (drop_bit 4 v) = drop_bit 4 (unat v)"
    by (rule unat_drop_bit_eq)
  moreover have "drop_bit 4 (unat v) = unat v div 2 ^ 4"
    by (rule drop_bit_eq_div)
  ultimately show ?thesis
    by simp
qed

lemma low_nibble_take_bit: "(v :: byte) AND 15 = take_bit 4 v"
proof -
  have "(15 :: byte) = mask 4"
    by (simp add: mask_eq_exp_minus_1)
  then show ?thesis
    by (simp add: take_bit_eq_mask)
qed

lemma unat_low_nibble: "unat ((v :: byte) AND 15) < 16"
proof -
  have "unat (take_bit 4 v) = take_bit 4 (unat v)"
    by (rule unsigned_take_bit_eq)
  moreover have "take_bit 4 (unat v) = unat v mod 2 ^ 4"
    by (rule take_bit_eq_mod)
  ultimately have "unat (take_bit 4 v) < 16"
    by simp
  then show ?thesis
    by (simp only: low_nibble_take_bit)
qed

lemma byte_of_nibbles: "push_bit 4 (drop_bit 4 v) OR (v AND 15) = (v :: byte)"
  by (rule bit_word_eqI) (auto simp: low_nibble_take_bit bit_simps)

lemma DecodeString_EncodeToString: "DecodeString (EncodeToString bs) = Inr bs"
proof (induction bs)
  case Nil
  show ?case by simp
next
  case (Cons v vs)
  have hi: "fromHexChar (hextable ! unat (drop_bit 4 v)) = Some (drop_bit 4 v)"
    using hextable_digit [OF unat_high_nibble, of v] by simp
  have lo: "fromHexChar (hextable ! unat (v AND 15)) = Some (v AND 15)"
    using hextable_digit [OF unat_low_nibble, of v] by simp
  show ?case
    by (simp add: hi lo Cons.IH byte_of_nibbles)
qed

section \<open>The steps of \<^verbatim>\<open>RunE\<close>\<close>

lemma CreateHTLC_RunE_built:
  assumes to: "AccAddressFromBech32 env (FlagTo flags) = Inr to"
      and amount: "ParseCoins env (FlagAmount flags) = Inr amount"
      and locks: "CreateHTLC_locks env flags = Inr (secret, hashLock)"
      and msg: "msg = NewMsgCreateHTLC (GetFromAddress env) to (FlagReceiverOnOtherChain flags)
                  amount hashLock (uint64_of_int64 (FlagTimestamp flags))
                  (uint64_of_int64 (FlagTimeLock flags))"
  shows "built (snd (CreateHTLC_RunE env flags st)) = built st @ [msg]"
    and "fst (CreateHTLC_RunE env flags st) =
           (case ValidateBasic env msg of
              Some err \<Rightarrow> Some err
            | None \<Rightarrow> GenerateOrBroadcastMsgs env [msg])"
  using to amount locks msg
  by (simp_all add: CreateHTLC_RunE_def Let_def Println_def Printf_Secret_HashLock_def
      split: option.splits)

lemma CreateHTLC_RunE_rejected:
  assumes "CreateHTLC_locks env flags = Inl err"
  shows "\<exists>err'. CreateHTLC_RunE env flags st = (Some err', st) \<and>
           ((\<exists>to. AccAddressFromBech32 env (FlagTo flags) = Inr to) \<and>
            (\<exists>amount. ParseCoins env (FlagAmount flags) = Inr amount) \<longrightarrow> err' = err)"
  using assms by (auto simp: CreateHTLC_RunE_def Let_def split: sum.splits)

lemma locks_random:
  assumes "FlagHashLock flags = None" and "TrimSpace env (GetString (FlagSecret flags)) = []"
  shows "CreateHTLC_locks env flags =
           (case rand_Read_err env of
              Some err \<Rightarrow> Inl err
            | None \<Rightarrow>
                Inr (map (rand_Read_byte env) [0 ..< 32],
                     GetHashLock env (map (rand_Read_byte env) [0 ..< 32])
                       (uint64_of_int64 (FlagTimestamp flags))))"
  using assms by (simp add: CreateHTLC_locks_def Changed_def Let_def split: option.splits)

lemma locks_secret:
  assumes "FlagHashLock flags = None" and "TrimSpace env (GetString (FlagSecret flags)) = secretStr"
      and "secretStr \<noteq> []"
  shows "CreateHTLC_locks env flags =
           (if length secretStr \<noteq> 2 * SecretLength
            then Inl (Errorf ''length of the secret must be %d in bytes'' [SecretLength])
            else case DecodeString secretStr of
                   Inl err \<Rightarrow> Inl err
                 | Inr secret \<Rightarrow>
                     Inr (secret, GetHashLock env secret (uint64_of_int64 (FlagTimestamp flags))))"
  using assms by (simp add: CreateHTLC_locks_def Changed_def Let_def split: sum.splits)

lemma CreateHTLC_RunE_error_prints_nothing:
  assumes "fst (CreateHTLC_RunE env flags st) = Some err"
  shows "printed (snd (CreateHTLC_RunE env flags st)) = printed st"
  using assms
  by (auto simp: CreateHTLC_RunE_def Let_def split: sum.splits option.splits prod.splits if_splits)

lemma CreateHTLC_Execute_error_prints_nothing:
  assumes "fst (CreateHTLC_Execute env flags st) = Some err"
  shows "printed (snd (CreateHTLC_Execute env flags st)) = printed st"
  using assms CreateHTLC_RunE_error_prints_nothing [of env flags st err]
  by (auto simp: CreateHTLC_Execute_def split: option.splits)

section \<open>Properties of genesis validation\<close>

text \<open>
  Claim C1, as amended. \<^verbatim>\<open>ValidateGenesis\<close> visits the entries in the iteration order of the
  runtime's map, not in a canonical order. Two executions on the same snapshot, whatever
  their two orders, agree on whether validation fails; an error that is returned is the
  error of an entry of the snapshot; and the two executions return the identical result
  when at most one entry of the snapshot violates a check.
\<close>

theorem ValidateGenesis_outcome_order_independent:
  assumes o1: "range_order (PendingHTLCs data) order1"
      and o2: "range_order (PendingHTLCs data) order2"
  shows "(ValidateGenesis Validate HashLockLength order1 data = None \<longleftrightarrow>
            ValidateGenesis Validate HashLockLength order2 data = None)
       \<and> (\<forall>e. ValidateGenesis Validate HashLockLength order1 data = Some e \<longrightarrow>
            (\<exists>k h. PendingHTLCs data k = Some h \<and> ValidateGenesis_body Validate HashLockLength k h = Some e))
       \<and> ((\<forall>k h k' h'. PendingHTLCs data k = Some h \<and> PendingHTLCs data k' = Some h' \<and>
              ValidateGenesis_body Validate HashLockLength k h \<noteq> None \<and>
              ValidateGenesis_body Validate HashLockLength k' h' \<noteq> None \<longrightarrow> k = k') \<longrightarrow>
            ValidateGenesis Validate HashLockLength order1 data = ValidateGenesis Validate HashLockLength order2 data)"
proof -
  let ?m = "PendingHTLCs data"
  let ?r = "ValidateGenesis_range Validate HashLockLength ?m"
  have same: "set order1 = set order2"
    using o1 o2 by (simp add: range_order_def)
  have none: "?r order1 = None \<longleftrightarrow> ?r order2 = None"
    by (simp add: ValidateGenesis_range_None_iff same)
  have some: "\<exists>k h. ?m k = Some h \<and> ValidateGenesis_body Validate HashLockLength k h = Some e"
    if "?r ks = Some e" for ks e
    using ValidateGenesis_range_Some [OF that] by blast
  have uniq: "?r order1 = ?r order2"
    if u: "\<forall>k h k' h'. ?m k = Some h \<and> ?m k' = Some h' \<and>
              ValidateGenesis_body Validate HashLockLength k h \<noteq> None \<and>
              ValidateGenesis_body Validate HashLockLength k' h' \<noteq> None \<longrightarrow> k = k'"
  proof (cases "?r order1")
    case None
    then show ?thesis using none by simp
  next
    case (Some e1)
    then obtain e2 where e2: "?r order2 = Some e2"
      using none by (cases "?r order2") auto
    obtain k1 h1 where k1: "?m k1 = Some h1" "ValidateGenesis_body Validate HashLockLength k1 h1 = Some e1"
      using some [OF Some] by blast
    obtain k2 h2 where k2: "?m k2 = Some h2" "ValidateGenesis_body Validate HashLockLength k2 h2 = Some e2"
      using some [OF e2] by blast
    have "k1 = k2" using u k1 k2 by blast
    then have "e1 = e2" using k1 k2 by simp
    then show ?thesis using Some e2 by simp
  qed
  show ?thesis
    unfolding ValidateGenesis_def using none some uniq by blast
qed

text \<open>
  On a snapshot with one entry that is not open, both orders return the same error.
\<close>

theorem ValidateGenesis_outcome_order_independent_witness:
  "range_order (PendingHTLCs snapshot_one_invalid) [key_a, key_b] \<and>
   range_order (PendingHTLCs snapshot_one_invalid) [key_b, key_a] \<and>
   ValidateGenesis example_Validate 32 [key_a, key_b] snapshot_one_invalid
     = ValidateGenesis example_Validate 32 [key_b, key_a] snapshot_one_invalid \<and>
   ValidateGenesis example_Validate 32 [key_a, key_b] snapshot_one_invalid
     = Some (Wrap ErrHTLCNotOpen key_b)"
proof -
  have o1: "range_order (PendingHTLCs snapshot_one_invalid) [key_a, key_b]"
    by (simp add: range_order_def example_defs insert_commute)
  have o2: "range_order (PendingHTLCs snapshot_one_invalid) [key_b, key_a]"
    by (simp add: range_order_def example_defs insert_commute)
  have r: "ValidateGenesis example_Validate 32 [key_a, key_b] snapshot_one_invalid
     = Some (Wrap ErrHTLCNotOpen key_b)"
     by (simp add: ValidateGenesis_def ValidateGenesis_body_def example_defs fromHexChar_def)
  have u: "\<forall>k h k' h'. PendingHTLCs snapshot_one_invalid k = Some h \<and>
        PendingHTLCs snapshot_one_invalid k' = Some h' \<and>
        ValidateGenesis_body example_Validate 32 k h \<noteq> None \<and>
        ValidateGenesis_body example_Validate 32 k' h' \<noteq> None \<longrightarrow> k = k'"
    by (simp add: ValidateGenesis_body_def example_defs fromHexChar_def split: if_splits)
  show ?thesis
    using o1 o2 r u ValidateGenesis_outcome_order_independent [OF o1 o2, of example_Validate 32] by blast
qed

text \<open>
  The claim as stated fails: on a snapshot with a key that is not hex and an entry that is
  not open, the two iteration orders return different errors.
\<close>

theorem ValidateGenesis_error_depends_on_order:
  "range_order (PendingHTLCs snapshot_two_invalid) [key_bad, key_a] \<and>
   range_order (PendingHTLCs snapshot_two_invalid) [key_a, key_bad] \<and>
   ValidateGenesis example_Validate 32 [key_bad, key_a] snapshot_two_invalid
     = Some (InvalidByteError CHR ''z'') \<and>
   ValidateGenesis example_Validate 32 [key_a, key_bad] snapshot_two_invalid
     = Some (Wrap ErrHTLCNotOpen key_a)"
  by (simp add: range_order_def ValidateGenesis_def ValidateGenesis_body_def example_defs
      fromHexChar_def insert_commute)

text \<open>
  Claim C2, as amended. When the key of an entry of the snapshot is malformed hex, or decodes
  to a byte string whose length is not \<^verbatim>\<open>HashLockLength\<close>, \<^verbatim>\<open>ValidateGenesis\<close> fails. When
  that entry is the first one in the iteration order that violates a check, the error is
  the error of \<^verbatim>\<open>hex.DecodeString\<close> (\<^verbatim>\<open>InvalidByteError\<close> or \<^verbatim>\<open>ErrLength\<close>, as the codec returned
  it) for a malformed key, and \<^verbatim>\<open>ErrInvalidHashLock\<close> (wrapped with the expected length) for
  a key of the wrong length.
\<close>

theorem ValidateGenesis_rejects_bad_key:
  assumes ord: "range_order (PendingHTLCs data) order"
      and k: "PendingHTLCs data k = Some h"
      and bad: "(\<exists>err. DecodeString k = Inl err) \<or> (\<exists>bs. DecodeString k = Inr bs \<and> length bs \<noteq> HashLockLength)"
  shows "(\<exists>e. ValidateGenesis Validate HashLockLength order data = Some e)
       \<and> (\<forall>pre post. order = pre @ k # post \<and>
             (\<forall>k' \<in> set pre. \<forall>h'. PendingHTLCs data k' = Some h' \<longrightarrow>
                ValidateGenesis_body Validate HashLockLength k' h' = None) \<longrightarrow>
             ValidateGenesis Validate HashLockLength order data =
               Some (case DecodeString k of
                       Inl err \<Rightarrow> err
                     | Inr bs \<Rightarrow> Wrapf ErrInvalidHashLock
                         ''length of the hash lock must be %d in bytes'' [HashLockLength]))"
proof -
  let ?m = "PendingHTLCs data"
  let ?bad = "case DecodeString k of
                Inl err \<Rightarrow> err
              | Inr bs \<Rightarrow> Wrapf ErrInvalidHashLock
                  ''length of the hash lock must be %d in bytes'' [HashLockLength]"
  have body: "ValidateGenesis_body Validate HashLockLength k h = Some ?bad"
    using bad by (auto simp: ValidateGenesis_body_def)
  have "k \<in> set order"
    using ord k by (auto simp: range_order_def)
  then have "ValidateGenesis_range Validate HashLockLength ?m order \<noteq> None"
    using k body by (auto simp: ValidateGenesis_range_None_iff)
  then have fails: "\<exists>e. ValidateGenesis Validate HashLockLength order data = Some e"
    by (simp add: ValidateGenesis_def)
  have first: "ValidateGenesis Validate HashLockLength order data = Some ?bad"
    if "order = pre @ k # post"
      and "\<forall>k' \<in> set pre. \<forall>h'. ?m k' = Some h' \<longrightarrow> ValidateGenesis_body Validate HashLockLength k' h' = None"
    for pre post
    using that k body
    by (simp add: ValidateGenesis_def ValidateGenesis_range_first_violation [where h = h])
  show ?thesis
    using fails first by blast
qed

text \<open>
  A snapshot whose second visited key decodes to two bytes: the error is \<^verbatim>\<open>ErrInvalidHashLock\<close>.
\<close>

theorem ValidateGenesis_rejects_bad_key_witness:
  "range_order (PendingHTLCs snapshot_three) ([key_a] @ key_short # [key_b]) \<and>
   PendingHTLCs snapshot_three key_short = Some (example_htlc Open) \<and>
   DecodeString key_short = Inr [0, 255] \<and>
   ValidateGenesis example_Validate 32 ([key_a] @ key_short # [key_b]) snapshot_three =
     Some (Wrapf ErrInvalidHashLock ''length of the hash lock must be %d in bytes'' [32])"
proof -
  have ord: "range_order (PendingHTLCs snapshot_three) ([key_a] @ key_short # [key_b])"
    by (auto simp: range_order_def example_defs snapshot_three_def)
  have k: "PendingHTLCs snapshot_three key_short = Some (example_htlc Open)"
    by (simp add: example_defs snapshot_three_def)
  have dec: "DecodeString key_short = Inr [0, 255]"
    by (simp add: key_short_def fromHexChar_def)
  have bad: "(\<exists>err. DecodeString key_short = Inl err) \<or>
             (\<exists>bs. DecodeString key_short = Inr bs \<and> length bs \<noteq> 32)"
    by (simp add: dec)
  have pre: "\<forall>k' \<in> set [key_a]. \<forall>h'. PendingHTLCs snapshot_three k' = Some h' \<longrightarrow>
               ValidateGenesis_body example_Validate 32 k' h' = None"
    by (simp add: ValidateGenesis_body_def example_defs snapshot_three_def fromHexChar_def)
  have "ValidateGenesis example_Validate 32 ([key_a] @ key_short # [key_b]) snapshot_three =
          Some (case DecodeString key_short of
                  Inl err \<Rightarrow> err
                | Inr bs \<Rightarrow> Wrapf ErrInvalidHashLock
                    ''length of the hash lock must be %d in bytes'' [32])"
    using ValidateGenesis_rejects_bad_key [OF ord k bad, of example_Validate] pre by blast
  then have "ValidateGenesis example_Validate 32 ([key_a] @ key_short # [key_b]) snapshot_three =
     Some (Wrapf ErrInvalidHashLock ''length of the hash lock must be %d in bytes'' [32])"
    by (simp only: dec sum.case)
  then show ?thesis
    using ord k dec by blast
qed

text \<open>
  The claim as stated fails: for a key that is not hex the error is the codec's
  \<^verbatim>\<open>InvalidByteError\<close>, whose root is not \<^verbatim>\<open>ErrInvalidHashLock\<close>.
\<close>

theorem ValidateGenesis_malformed_key_hex_error:
  "range_order (PendingHTLCs snapshot_bad_key) [key_bad] \<and>
   DecodeString key_bad = Inl (InvalidByteError CHR ''z'') \<and>
   ValidateGenesis example_Validate 32 [key_bad] snapshot_bad_key = Some (InvalidByteError CHR ''z'') \<and>
   root_cause (InvalidByteError CHR ''z'') \<noteq> ErrInvalidHashLock"
  by (simp add: range_order_def ValidateGenesis_def ValidateGenesis_body_def example_defs
      fromHexChar_def)

text \<open>
  Claim C3. In every iteration order, \<^verbatim>\<open>ValidateGenesis\<close> returns no error if and only if
  every entry of the snapshot passes the three checks: its key is valid hex that decodes to
  exactly \<^verbatim>\<open>HashLockLength\<close> bytes, the state of the entity is \<open>Open\<close>, and \<^verbatim>\<open>Validate()\<close> of the
  entity returns no error.
\<close>

theorem ValidateGenesis_accepts_iff_all_valid:
  assumes "range_order (PendingHTLCs data) order"
  shows "ValidateGenesis Validate HashLockLength order data = None \<longleftrightarrow>
           (\<forall>k h. PendingHTLCs data k = Some h \<longrightarrow>
              (\<exists>hashLock. DecodeString k = Inr hashLock \<and> length hashLock = HashLockLength) \<and>
              State h = Open \<and> Validate h = None)"
proof -
  have "set order = dom (PendingHTLCs data)"
    using assms by (simp add: range_order_def)
  then have "(\<forall>k \<in> set order. \<forall>h. PendingHTLCs data k = Some h \<longrightarrow> P k h) \<longleftrightarrow>
             (\<forall>k h. PendingHTLCs data k = Some h \<longrightarrow> P k h)" for P
    by auto
  then show ?thesis
    by (simp add: ValidateGenesis_def ValidateGenesis_range_None_iff ValidateGenesis_body_None_iff)
qed

text \<open>
  A snapshot of two open entries with 32-byte keys is accepted; one with a refunded entry
  is not.
\<close>

theorem ValidateGenesis_accepts_iff_all_valid_witness:
  "range_order (PendingHTLCs snapshot_valid) [key_b, key_a] \<and>
   ValidateGenesis example_Validate 32 [key_b, key_a] snapshot_valid = None \<and>
   range_order (PendingHTLCs snapshot_one_invalid) [key_b, key_a] \<and>
   ValidateGenesis example_Validate 32 [key_b, key_a] snapshot_one_invalid \<noteq> None"
proof -
  have o1: "range_order (PendingHTLCs snapshot_valid) [key_b, key_a]"
    by (auto simp: range_order_def example_defs)
  have o2: "range_order (PendingHTLCs snapshot_one_invalid) [key_b, key_a]"
    by (auto simp: range_order_def example_defs)
  have da: "\<exists>hashLock. DecodeString key_a = Inr hashLock \<and> length hashLock = 32"
    by (simp add: key_a_def fromHexChar_def)
  have db: "\<exists>hashLock. DecodeString key_b = Inr hashLock \<and> length hashLock = 32"
    by (simp add: key_b_def fromHexChar_def)
  have all: "\<forall>k h. PendingHTLCs snapshot_valid k = Some h \<longrightarrow>
              (\<exists>hashLock. DecodeString k = Inr hashLock \<and> length hashLock = 32) \<and>
              State h = Open \<and> example_Validate h = None"
    using da db by (simp add: snapshot_valid_def NewGenesisState_def example_htlc_def example_Validate_def)
  have one: "PendingHTLCs snapshot_one_invalid key_b = Some (example_htlc Refunded)"
    by (simp add: example_defs)
  have "State (example_htlc Refunded) \<noteq> Open"
    by (simp add: example_htlc_def)
  then have notall: "\<not> (\<forall>k h. PendingHTLCs snapshot_one_invalid k = Some h \<longrightarrow>
              (\<exists>hashLock. DecodeString k = Inr hashLock \<and> length hashLock = 32) \<and>
              State h = Open \<and> example_Validate h = None)"
    using one by blast
  show ?thesis
    using o1 o2 all notall ValidateGenesis_accepts_iff_all_valid [OF o1, of example_Validate 32] ValidateGenesis_accepts_iff_all_valid [OF o2, of example_Validate 32]
    by blast
qed

text \<open>
  Claim C4. Genesis validation is fail-fast: when the entries visited before \<open>k\<close> pass every
  check and the entry at \<open>k\<close> violates one with the error \<open>err\<close>, \<^verbatim>\<open>ValidateGenesis\<close> returns
  exactly \<open>err\<close>, and the result is the one of the execution that ends at \<open>k\<close>: the entries
  after \<open>k\<close>, valid or not, have no part in it.
\<close>

theorem ValidateGenesis_fail_fast:
  assumes "\<forall>k' \<in> set pre. \<forall>h'. PendingHTLCs data k' = Some h' \<longrightarrow>
             ValidateGenesis_body Validate HashLockLength k' h' = None"
      and "PendingHTLCs data k = Some h"
      and "ValidateGenesis_body Validate HashLockLength k h = Some err"
  shows "ValidateGenesis Validate HashLockLength (pre @ k # post) data = Some err
       \<and> ValidateGenesis Validate HashLockLength (pre @ k # post) data =
           ValidateGenesis Validate HashLockLength (pre @ [k]) data"
  using assms
  by (simp add: ValidateGenesis_def ValidateGenesis_range_first_violation [where h = h])

text \<open>
  Three entries, the second with a short key and the third not open: the result is the
  error of the second.
\<close>

theorem ValidateGenesis_fail_fast_witness:
  "PendingHTLCs snapshot_three key_short = Some (example_htlc Open) \<and>
   ValidateGenesis_body example_Validate 32 key_short (example_htlc Open) =
     Some (Wrapf ErrInvalidHashLock ''length of the hash lock must be %d in bytes'' [32]) \<and>
   ValidateGenesis_body example_Validate 32 key_b (example_htlc Completed) =
     Some (Wrap ErrHTLCNotOpen key_b) \<and>
   ValidateGenesis example_Validate 32 ([key_a] @ key_short # [key_b]) snapshot_three =
     Some (Wrapf ErrInvalidHashLock ''length of the hash lock must be %d in bytes'' [32])"
proof -
  have k: "PendingHTLCs snapshot_three key_short = Some (example_htlc Open)"
    by (simp add: example_defs snapshot_three_def)
  have pre: "\<forall>k' \<in> set [key_a]. \<forall>h'. PendingHTLCs snapshot_three k' = Some h' \<longrightarrow>
               ValidateGenesis_body example_Validate 32 k' h' = None"
    by (simp add: ValidateGenesis_body_def example_defs snapshot_three_def fromHexChar_def)
  have body: "ValidateGenesis_body example_Validate 32 key_short (example_htlc Open) =
     Some (Wrapf ErrInvalidHashLock ''length of the hash lock must be %d in bytes'' [32])"
    by (simp add: ValidateGenesis_body_def example_defs fromHexChar_def)
  have later: "ValidateGenesis_body example_Validate 32 key_b (example_htlc Completed) =
     Some (Wrap ErrHTLCNotOpen key_b)"
    by (simp add: ValidateGenesis_body_def example_defs fromHexChar_def)
  show ?thesis
    using k body later ValidateGenesis_fail_fast [OF pre k body, of "[key_b]"] by simp
qed

text \<open>
  Claim C9. The default genesis state, whose map of pending HTLCs is empty, validates.
\<close>

theorem ValidateGenesis_default_genesis:
  assumes "range_order (PendingHTLCs DefaultGenesisState) order"
  shows "ValidateGenesis Validate HashLockLength order DefaultGenesisState = None"
proof -
  have "order = []"
    using assms by (simp add: range_order_def DefaultGenesisState_def)
  then show ?thesis
    by (simp add: ValidateGenesis_def)
qed

text \<open>The only iteration order of the empty map is the empty one.\<close>

theorem ValidateGenesis_default_genesis_witness:
  "range_order (PendingHTLCs DefaultGenesisState) [] \<and>
   ValidateGenesis example_Validate 32 [] DefaultGenesisState = None"
proof -
  have h: "range_order (PendingHTLCs DefaultGenesisState) []"
    by (simp add: range_order_def DefaultGenesisState_def)
  show ?thesis
    using h ValidateGenesis_default_genesis [OF h, of example_Validate 32] by simp
qed

section \<open>Properties of the create command\<close>

text \<open>
  Claim C6. When both \<^verbatim>\<open>--secret\<close> and \<^verbatim>\<open>--hash-lock\<close> are given, the execution of the create
  command ends with the error of \<^verbatim>\<open>preCheckCmd\<close> and leaves no effect: no message is built
  and none is handed to the broadcaster.
\<close>

theorem create_rejects_both_flags:
  assumes "FlagSecret flags = Some secretStr" and "FlagHashLock flags = Some hashLockStr"
  shows "CreateHTLC_Execute env flags st =
           (Some (Errorf ''can not provide both the secret and hash lock'' []), st)"
  using assms by (simp add: CreateHTLC_Execute_def preCheckCmd_def Changed_def)

text \<open>An invocation with both flags.\<close>

theorem create_rejects_both_flags_witness:
  "FlagSecret flags_both = Some key_a \<and> FlagHashLock flags_both = Some key_a \<and>
   CreateHTLC_Execute example_env flags_both no_effects =
     (Some (Errorf ''can not provide both the secret and hash lock'' []), no_effects) \<and>
   built no_effects = [] \<and> sent no_effects = []"
proof -
  have s: "FlagSecret flags_both = Some key_a"
    by (simp add: flags_both_def)
  have h: "FlagHashLock flags_both = Some key_a"
    by (simp add: flags_both_def)
  show ?thesis
    using s h create_rejects_both_flags [OF s h, of example_env no_effects] by (simp add: no_effects_def)
qed

text \<open>
  Claim C7. When neither \<^verbatim>\<open>--secret\<close> nor \<^verbatim>\<open>--hash-lock\<close> is given (and the recipient and the
  amount parse and \<^verbatim>\<open>rand.Read\<close> succeeds), the secret is the 32 bytes that \<^verbatim>\<open>crypto/rand\<close>
  delivered, which is \<^verbatim>\<open>SecretLength\<close> bytes; the hash lock is \<^verbatim>\<open>GetHashLock\<close> of that secret
  and the timestamp, and it is the hash lock of the message that is built. When the message
  passes \<^verbatim>\<open>ValidateBasic\<close> and is broadcast without error, the command then writes the two
  lines of the notice, an empty line, and the secret and the hash lock in hex, once: the
  hex of the secret has \<open>2 * SecretLength\<close> digits, and the two hex strings decode back to
  the secret and to the hash lock. When the command fails it writes nothing.
\<close>

theorem create_generates_secret:
  assumes s: "FlagSecret flags = None" and h: "FlagHashLock flags = None"
      and to: "AccAddressFromBech32 env (FlagTo flags) = Inr to"
      and amount: "ParseCoins env (FlagAmount flags) = Inr amount"
      and rnd: "rand_Read_err env = None"
      and secret: "secret = map (rand_Read_byte env) [0 ..< 32]"
      and hashLock: "hashLock = GetHashLock env secret (uint64_of_int64 (FlagTimestamp flags))"
      and msg: "msg = NewMsgCreateHTLC (GetFromAddress env) to (FlagReceiverOnOtherChain flags)
                  amount hashLock (uint64_of_int64 (FlagTimestamp flags))
                  (uint64_of_int64 (FlagTimeLock flags))"
  shows "length secret = SecretLength \<and>
         CreateHTLC_locks env flags = Inr (secret, hashLock) \<and>
         DecodeString (EncodeToString secret) = Inr secret \<and>
         DecodeString (EncodeToString hashLock) = Inr hashLock \<and>
         length (EncodeToString secret) = 2 * SecretLength \<and>
         built (snd (CreateHTLC_Execute env flags st)) = built st @ [msg] \<and>
         (ValidateBasic env msg = None \<and> GenerateOrBroadcastMsgs env [msg] = None \<longrightarrow>
            CreateHTLC_Execute env flags st =
              (None,
               st\<lparr>built := built st @ [msg],
                  sent := sent st @ [[msg]],
                  printed := printed st @
                    [''**Important** save this secret, hashLock in a safe place.'' @ [CHR 0x0A],
                     ''It is the only way to claim or refund the locked coins from an HTLC'' @ [CHR 0x0A],
                     [CHR 0x0A],
                     ''Secret:      '' @ EncodeToString secret @ [CHR 0x0A] @
                     ''HashLock:    '' @ EncodeToString hashLock @ [CHR 0x0A]]\<rparr>)) \<and>
         (fst (CreateHTLC_Execute env flags st) \<noteq> None \<longrightarrow>
            printed (snd (CreateHTLC_Execute env flags st)) = printed st)"
proof -
  have len: "length secret = SecretLength"
    by (simp add: secret SecretLength_def)
  have "TrimSpace env (GetString (FlagSecret flags)) = []"
    by (simp add: s GetString_def TrimSpace_def)
  then have locks: "CreateHTLC_locks env flags = Inr (secret, hashLock)"
    using locks_random [OF h] rnd secret hashLock by simp
  have pre: "preCheckCmd flags = None"
    by (simp add: preCheckCmd_def Changed_def s)
  then have exec: "CreateHTLC_Execute env flags st = CreateHTLC_RunE env flags st"
    by (simp add: CreateHTLC_Execute_def)
  have b: "built (snd (CreateHTLC_Execute env flags st)) = built st @ [msg]"
    using CreateHTLC_RunE_built(1) [OF to amount locks msg] exec by simp
  have p: "CreateHTLC_RunE env flags st =
           (None,
            st\<lparr>built := built st @ [msg],
               sent := sent st @ [[msg]],
               printed := printed st @
                 [''**Important** save this secret, hashLock in a safe place.'' @ [CHR 0x0A],
                  ''It is the only way to claim or refund the locked coins from an HTLC'' @ [CHR 0x0A],
                  [CHR 0x0A],
                  ''Secret:      '' @ EncodeToString secret @ [CHR 0x0A] @
                  ''HashLock:    '' @ EncodeToString hashLock @ [CHR 0x0A]]\<rparr>)"
    if "ValidateBasic env msg = None" and "GenerateOrBroadcastMsgs env [msg] = None"
    using to amount locks that h msg [symmetric]
    by (simp add: CreateHTLC_RunE_def Let_def Println_def Printf_Secret_HashLock_def Changed_def)
  have q: "printed (snd (CreateHTLC_Execute env flags st)) = printed st"
    if "fst (CreateHTLC_Execute env flags st) \<noteq> None"
    using that CreateHTLC_Execute_error_prints_nothing [of env flags st] by auto
  have hex: "length (EncodeToString secret) = 2 * SecretLength"
    using DecodeString_length [OF DecodeString_EncodeToString, of secret] len by simp
  show ?thesis
    using len locks b p q exec hex by (simp add: DecodeString_EncodeToString)
qed

text \<open>
  An invocation with neither flag, on collaborators that accept it: the last write is the
  line of the secret (the bytes \<open>7 * i + 3\<close>) and the line of its hash lock, digit for digit.
\<close>

theorem create_generates_secret_witness:
  "FlagSecret flags_neither = None \<and> FlagHashLock flags_neither = None \<and>
   length (map (rand_Read_byte example_env) [0 ..< 32]) = SecretLength \<and>
   fst (CreateHTLC_Execute example_env flags_neither no_effects) = None \<and>
   sent (snd (CreateHTLC_Execute example_env flags_neither no_effects)) =
     [[NewMsgCreateHTLC [1] (map of_char ''recipient'') ''peer'' [(''100stake'', 1)]
        (GetHashLock example_env (map (rand_Read_byte example_env) [0 ..< 32]) 1000) 1000 50]] \<and>
   EncodeToString (map (rand_Read_byte example_env) [0 ..< 32]) =
     ''030a11181f262d343b424950575e656c737a81888f969da4abb2b9c0c7ced5dc'' \<and>
   EncodeToString (GetHashLock example_env (map (rand_Read_byte example_env) [0 ..< 32]) 1000) =
     ''ebf2f900070e151c232a31383f464d545b626970777e858c939aa1a8afb6bdc4'' \<and>
   printed (snd (CreateHTLC_Execute example_env flags_neither no_effects)) =
     [''**Important** save this secret, hashLock in a safe place.'' @ [CHR 0x0A],
      ''It is the only way to claim or refund the locked coins from an HTLC'' @ [CHR 0x0A],
      [CHR 0x0A],
      ''Secret:      030a11181f262d343b424950575e656c737a81888f969da4abb2b9c0c7ced5dc'' @
        [CHR 0x0A] @
      ''HashLock:    ebf2f900070e151c232a31383f464d545b626970777e858c939aa1a8afb6bdc4'' @
        [CHR 0x0A]]"
proof -
  let ?secret = "map (rand_Read_byte example_env) [0 ..< 32]"
  let ?hashLock = "GetHashLock example_env ?secret (uint64_of_int64 (FlagTimestamp flags_neither))"
  let ?msg = "NewMsgCreateHTLC (GetFromAddress example_env) (map of_char ''recipient'')
                (FlagReceiverOnOtherChain flags_neither) [(''100stake'', 1)] ?hashLock
                (uint64_of_int64 (FlagTimestamp flags_neither))
                (uint64_of_int64 (FlagTimeLock flags_neither))"
  have s: "FlagSecret flags_neither = None" and h: "FlagHashLock flags_neither = None"
    by (simp_all add: flags_neither_def)
  have to: "AccAddressFromBech32 example_env (FlagTo flags_neither) = Inr (map of_char ''recipient'')"
    by (simp add: example_env_def flags_neither_def)
  have amount: "ParseCoins example_env (FlagAmount flags_neither) = Inr [(''100stake'', 1)]"
    by (simp add: example_env_def flags_neither_def)
  have rnd: "rand_Read_err example_env = None"
    by (simp add: example_env_def)
  have valid: "ValidateBasic example_env ?msg = None"
    by (simp add: example_env_def NewMsgCreateHTLC_def)
  have ok: "GenerateOrBroadcastMsgs example_env [?msg] = None"
    by (simp add: example_env_def)
  have ts: "uint64_of_int64 (FlagTimestamp flags_neither) = 1000"
       "uint64_of_int64 (FlagTimeLock flags_neither) = 50"
       "GetFromAddress example_env = [1]" "FlagReceiverOnOtherChain flags_neither = ''peer''"
    by (simp_all add: uint64_of_int64_def flags_neither_def example_env_def)
  have hex_secret: "EncodeToString ?secret =
      ''030a11181f262d343b424950575e656c737a81888f969da4abb2b9c0c7ced5dc''"
    by code_simp
  have hex_hashLock: "EncodeToString (GetHashLock example_env ?secret 1000) =
      ''ebf2f900070e151c232a31383f464d545b626970777e858c939aa1a8afb6bdc4''"
    by code_simp
  have run: "CreateHTLC_Execute example_env flags_neither no_effects =
      (None,
       no_effects\<lparr>built := built no_effects @ [?msg],
          sent := sent no_effects @ [[?msg]],
          printed := printed no_effects @
            [''**Important** save this secret, hashLock in a safe place.'' @ [CHR 0x0A],
             ''It is the only way to claim or refund the locked coins from an HTLC'' @ [CHR 0x0A],
             [CHR 0x0A],
             ''Secret:      '' @ EncodeToString ?secret @ [CHR 0x0A] @
             ''HashLock:    '' @ EncodeToString ?hashLock @ [CHR 0x0A]]\<rparr>)"
    using valid ok create_generates_secret [OF s h to amount rnd refl refl refl, of no_effects] by blast
  have "printed (snd (CreateHTLC_Execute example_env flags_neither no_effects)) =
     [''**Important** save this secret, hashLock in a safe place.'' @ [CHR 0x0A],
      ''It is the only way to claim or refund the locked coins from an HTLC'' @ [CHR 0x0A],
      [CHR 0x0A],
      ''Secret:      030a11181f262d343b424950575e656c737a81888f969da4abb2b9c0c7ced5dc'' @
        [CHR 0x0A] @
      ''HashLock:    ebf2f900070e151c232a31383f464d545b626970777e858c939aa1a8afb6bdc4'' @
        [CHR 0x0A]]"
    by (simp only: run ts hex_secret hex_hashLock) (simp add: no_effects_def)
  moreover have "sent (snd (CreateHTLC_Execute example_env flags_neither no_effects)) =
     [[NewMsgCreateHTLC [1] (map of_char ''recipient'') ''peer'' [(''100stake'', 1)]
        (GetHashLock example_env ?secret 1000) 1000 50]]"
    by (simp only: run ts) (simp add: no_effects_def)
  moreover have "fst (CreateHTLC_Execute example_env flags_neither no_effects) = None"
    by (simp only: run fst_conv)
  moreover have "length ?secret = SecretLength"
    by (simp add: SecretLength_def)
  ultimately show ?thesis
    using s h hex_secret hex_hashLock by blast
qed

text \<open>
  Claim C8, as amended. Let \<^verbatim>\<open>--secret\<close> be given and \<^verbatim>\<open>--hash-lock\<close> not. When the secret is a
  valid hex string of length \<open>2 * SecretLength\<close> (and the recipient and the amount parse), the
  message that is built carries the hash lock \<^verbatim>\<open>GetHashLock\<close> of the decoded secret and the
  timestamp. When the secret, with the white space around it removed, is not empty and its
  length is not \<open>2 * SecretLength\<close>, the command ends with an error before any message is
  built. A secret that is empty after the white space is removed is treated as one that
  was not given: the command takes the secret from the random source.
\<close>

theorem create_by_secret:
  assumes h: "FlagHashLock flags = None" and s: "FlagSecret flags = Some secretStr"
  shows "(\<forall>to amount secret.
            AccAddressFromBech32 env (FlagTo flags) = Inr to \<and>
            ParseCoins env (FlagAmount flags) = Inr amount \<and>
            length secretStr = 2 * SecretLength \<and> DecodeString secretStr = Inr secret \<longrightarrow>
            built (snd (CreateHTLC_Execute env flags st)) = built st @
              [NewMsgCreateHTLC (GetFromAddress env) to (FlagReceiverOnOtherChain flags) amount
                 (GetHashLock env secret (uint64_of_int64 (FlagTimestamp flags)))
                 (uint64_of_int64 (FlagTimestamp flags)) (uint64_of_int64 (FlagTimeLock flags))])
       \<and> (TrimSpace env secretStr \<noteq> [] \<and> length (TrimSpace env secretStr) \<noteq> 2 * SecretLength \<longrightarrow>
            (\<exists>err. CreateHTLC_Execute env flags st = (Some err, st) \<and>
               ((\<exists>to. AccAddressFromBech32 env (FlagTo flags) = Inr to) \<and>
                (\<exists>amount. ParseCoins env (FlagAmount flags) = Inr amount) \<longrightarrow>
                err = Errorf ''length of the secret must be %d in bytes'' [SecretLength])))
       \<and> (TrimSpace env secretStr = [] \<longrightarrow>
            CreateHTLC_locks env flags =
              (case rand_Read_err env of
                 Some err \<Rightarrow> Inl err
               | None \<Rightarrow>
                   Inr (map (rand_Read_byte env) [0 ..< 32],
                        GetHashLock env (map (rand_Read_byte env) [0 ..< 32])
                          (uint64_of_int64 (FlagTimestamp flags)))))"
proof -
  have pre: "preCheckCmd flags = None"
    by (simp add: preCheckCmd_def Changed_def h)
  then have exec: "CreateHTLC_Execute env flags st = CreateHTLC_RunE env flags st"
    by (simp add: CreateHTLC_Execute_def)
  have get: "GetString (FlagSecret flags) = secretStr"
    by (simp add: s GetString_def)
  have a: "built (snd (CreateHTLC_Execute env flags st)) = built st @
              [NewMsgCreateHTLC (GetFromAddress env) to (FlagReceiverOnOtherChain flags) amount
                 (GetHashLock env secret (uint64_of_int64 (FlagTimestamp flags)))
                 (uint64_of_int64 (FlagTimestamp flags)) (uint64_of_int64 (FlagTimeLock flags))]"
    if to: "AccAddressFromBech32 env (FlagTo flags) = Inr to"
      and amount: "ParseCoins env (FlagAmount flags) = Inr amount"
      and len: "length secretStr = 2 * SecretLength"
      and dec: "DecodeString secretStr = Inr secret"
    for to amount secret
  proof -
    have trim: "TrimSpace env (GetString (FlagSecret flags)) = secretStr"
      using TrimSpace_hex [OF dec] get by simp
    have "secretStr \<noteq> []"
      using len by (auto simp: SecretLength_def)
    then have "CreateHTLC_locks env flags =
                 Inr (secret, GetHashLock env secret (uint64_of_int64 (FlagTimestamp flags)))"
      using locks_secret [OF h trim] len dec by simp
    then show ?thesis
      using CreateHTLC_RunE_built(1) [OF to amount _ refl] exec by simp
  qed
  have b: "\<exists>err. CreateHTLC_Execute env flags st = (Some err, st) \<and>
               ((\<exists>to. AccAddressFromBech32 env (FlagTo flags) = Inr to) \<and>
                (\<exists>amount. ParseCoins env (FlagAmount flags) = Inr amount) \<longrightarrow>
                err = Errorf ''length of the secret must be %d in bytes'' [SecretLength])"
    if ne: "TrimSpace env secretStr \<noteq> []"
      and len: "length (TrimSpace env secretStr) \<noteq> 2 * SecretLength"
  proof -
    have "TrimSpace env (GetString (FlagSecret flags)) = TrimSpace env secretStr"
      by (simp add: get)
    then have "CreateHTLC_locks env flags =
                 Inl (Errorf ''length of the secret must be %d in bytes'' [SecretLength])"
      using locks_secret [OF h _ ne] len by simp
    then show ?thesis
      using CreateHTLC_RunE_rejected exec by simp
  qed
  have c: "CreateHTLC_locks env flags =
              (case rand_Read_err env of
                 Some err \<Rightarrow> Inl err
               | None \<Rightarrow>
                   Inr (map (rand_Read_byte env) [0 ..< 32],
                        GetHashLock env (map (rand_Read_byte env) [0 ..< 32])
                          (uint64_of_int64 (FlagTimestamp flags))))"
    if "TrimSpace env secretStr = []"
    using locks_random [OF h] that get by simp
  show ?thesis
    using a b c by blast
qed

text \<open>
  A secret of 64 hex digits is decoded and hashed into the message; a secret of four hex
  digits is rejected with no effect.
\<close>

theorem create_by_secret_witness:
  "FlagHashLock flags_secret = None \<and> FlagSecret flags_secret = Some key_a \<and>
   length key_a = 2 * SecretLength \<and>
   DecodeString key_a = Inr (replicate 31 0 @ [170]) \<and>
   built (snd (CreateHTLC_Execute example_env flags_secret no_effects)) =
     [NewMsgCreateHTLC [1] (map of_char ''recipient'') ''peer'' [(''100stake'', 1)]
        (GetHashLock example_env (replicate 31 0 @ [170]) 1000) 1000 50] \<and>
   FlagHashLock flags_short_secret = None \<and> FlagSecret flags_short_secret = Some ''00ff'' \<and>
   CreateHTLC_Execute example_env flags_short_secret no_effects =
     (Some (Errorf ''length of the secret must be %d in bytes'' [SecretLength]), no_effects)"
proof -
  have h: "FlagHashLock flags_secret = None" and s: "FlagSecret flags_secret = Some key_a"
    by (simp_all add: flags_secret_def flags_neither_def)
  have to: "AccAddressFromBech32 example_env (FlagTo flags_secret) = Inr (map of_char ''recipient'')"
    by (simp add: example_env_def flags_secret_def flags_neither_def)
  have amount: "ParseCoins example_env (FlagAmount flags_secret) = Inr [(''100stake'', 1)]"
    by (simp add: example_env_def flags_secret_def flags_neither_def)
  have len: "length key_a = 2 * SecretLength"
    by (simp add: key_a_def SecretLength_def)
  have dec: "DecodeString key_a = Inr (replicate 31 0 @ [170])"
    by (simp add: key_a_def fromHexChar_def numeral_eq_Suc)
  have vals: "uint64_of_int64 (FlagTimestamp flags_secret) = 1000"
       "uint64_of_int64 (FlagTimeLock flags_secret) = 50"
       "GetFromAddress example_env = [1]" "FlagReceiverOnOtherChain flags_secret = ''peer''"
    by (simp_all add: uint64_of_int64_def flags_secret_def flags_neither_def example_env_def)
  have one: "built (snd (CreateHTLC_Execute example_env flags_secret no_effects)) =
     [NewMsgCreateHTLC [1] (map of_char ''recipient'') ''peer'' [(''100stake'', 1)]
        (GetHashLock example_env (replicate 31 0 @ [170]) 1000) 1000 50]"
    using create_by_secret [OF h s, of example_env no_effects] to amount len dec
    by (simp add: vals no_effects_def)
  have h': "FlagHashLock flags_short_secret = None"
    and s': "FlagSecret flags_short_secret = Some ''00ff''"
    by (simp_all add: flags_short_secret_def flags_neither_def)
  have to': "AccAddressFromBech32 example_env (FlagTo flags_short_secret) = Inr (map of_char ''recipient'')"
    by (simp add: example_env_def flags_short_secret_def flags_neither_def)
  have amount': "ParseCoins example_env (FlagAmount flags_short_secret) = Inr [(''100stake'', 1)]"
    by (simp add: example_env_def flags_short_secret_def flags_neither_def)
  have trim: "TrimSpace example_env ''00ff'' = ''00ff''"
    by (simp add: TrimSpace_def asciiSpace_def)
  have two: "CreateHTLC_Execute example_env flags_short_secret no_effects =
     (Some (Errorf ''length of the secret must be %d in bytes'' [SecretLength]), no_effects)"
    using create_by_secret [OF h' s', of example_env no_effects] to' amount'
    by (auto simp: trim SecretLength_def)
  show ?thesis
    using h s len dec one h' s' two by blast
qed

text \<open>
  The claim as stated fails: an empty \<^verbatim>\<open>--secret\<close> (hex length 0, not \<open>2 * SecretLength\<close>) is
  not rejected; the message is built from a random secret and handed to the broadcaster.
\<close>

theorem create_empty_secret_accepted:
  "FlagSecret flags_empty_secret = Some [] \<and>
   FlagHashLock flags_empty_secret = None \<and>
   length ([] :: string) \<noteq> 2 * SecretLength \<and>
   fst (CreateHTLC_Execute example_env flags_empty_secret no_effects) = None \<and>
   built (snd (CreateHTLC_Execute example_env flags_empty_secret no_effects)) =
     [NewMsgCreateHTLC [1] (map of_char ''recipient'') ''peer'' [(''100stake'', 1)]
        (GetHashLock example_env (map (rand_Read_byte example_env) [0 ..< 32]) 1000) 1000 50] \<and>
   sent (snd (CreateHTLC_Execute example_env flags_empty_secret no_effects)) =
     [built (snd (CreateHTLC_Execute example_env flags_empty_secret no_effects))]"
  by (simp add: CreateHTLC_Execute_def preCheckCmd_def Changed_def CreateHTLC_RunE_def
      CreateHTLC_locks_def GetString_def TrimSpace_def flags_empty_secret_def flags_neither_def
      example_env_def no_effects_def SecretLength_def Let_def uint64_of_int64_def
      NewMsgCreateHTLC_def Println_def Printf_Secret_HashLock_def)

text \<open>
  Claim C10. The create command has no range check on \<^verbatim>\<open>--timestamp\<close> and \<^verbatim>\<open>--time-lock\<close>: once
  the recipient, the amount and the locks are in hand, the message is built with each
  \<^verbatim>\<open>int64\<close> value converted to \<^verbatim>\<open>uint64\<close>, that is with \<open>v mod 2 ^ 64\<close>, which for a negative
  \<open>v\<close> is \<open>v + 2 ^ 64\<close>; what the command returns from there on is decided by
  \<^verbatim>\<open>ValidateBasic\<close> and the broadcaster alone.
\<close>

theorem create_converts_flags_unchecked:
  assumes pre: "preCheckCmd flags = None"
      and to: "AccAddressFromBech32 env (FlagTo flags) = Inr to"
      and amount: "ParseCoins env (FlagAmount flags) = Inr amount"
      and locks: "CreateHTLC_locks env flags = Inr (secret, hashLock)"
  shows "\<exists>msg. built (snd (CreateHTLC_Execute env flags st)) = built st @ [msg]
           \<and> fst (CreateHTLC_Execute env flags st) =
               (case ValidateBasic env msg of
                  Some err \<Rightarrow> Some err
                | None \<Rightarrow> GenerateOrBroadcastMsgs env [msg])
           \<and> uint (MsgTimestamp msg) = sint (FlagTimestamp flags) mod 2 ^ 64
           \<and> uint (MsgTimeLock msg) = sint (FlagTimeLock flags) mod 2 ^ 64
           \<and> (sint (FlagTimestamp flags) < 0 \<longrightarrow>
                uint (MsgTimestamp msg) = sint (FlagTimestamp flags) + 2 ^ 64)
           \<and> (sint (FlagTimeLock flags) < 0 \<longrightarrow>
                uint (MsgTimeLock msg) = sint (FlagTimeLock flags) + 2 ^ 64)"
proof -
  define msg where "msg = NewMsgCreateHTLC (GetFromAddress env) to (FlagReceiverOnOtherChain flags)
                  amount hashLock (uint64_of_int64 (FlagTimestamp flags))
                  (uint64_of_int64 (FlagTimeLock flags))"
  have exec: "CreateHTLC_Execute env flags st = CreateHTLC_RunE env flags st"
    using pre by (simp add: CreateHTLC_Execute_def)
  have neg: "sint v mod 2 ^ 64 = sint v + 2 ^ 64" if "sint v < 0" for v :: int64
  proof -
    have "- (2 ^ 63) \<le> sint v"
      using sint_ge [of v] by simp
    then have "0 \<le> sint v + 2 ^ 64" "sint v + 2 ^ 64 < 2 ^ 64"
      using that by simp_all
    then have "(sint v + 2 ^ 64) mod 2 ^ 64 = sint v + 2 ^ 64"
      by (rule mod_pos_pos_trivial)
    then show ?thesis by simp
  qed
  have ts: "uint (MsgTimestamp msg) = sint (FlagTimestamp flags) mod 2 ^ 64"
    by (simp only: msg_def NewMsgCreateHTLC_def MsgCreateHTLC.simps uint_uint64_of_int64)
  have tl: "uint (MsgTimeLock msg) = sint (FlagTimeLock flags) mod 2 ^ 64"
    by (simp only: msg_def NewMsgCreateHTLC_def MsgCreateHTLC.simps uint_uint64_of_int64)
  have "built (snd (CreateHTLC_Execute env flags st)) = built st @ [msg]
           \<and> fst (CreateHTLC_Execute env flags st) =
               (case ValidateBasic env msg of
                  Some err \<Rightarrow> Some err
                | None \<Rightarrow> GenerateOrBroadcastMsgs env [msg])"
    using CreateHTLC_RunE_built [OF to amount locks msg_def] exec by simp
  then show ?thesis
    using ts tl neg by metis
qed

text \<open>
  Timestamp \<open>-1\<close> and time lock \<open>-50\<close>: the message carries \<open>2 ^ 64 - 1\<close> and \<open>2 ^ 64 - 50\<close>
  and is broadcast.
\<close>

theorem create_converts_flags_unchecked_witness:
  "preCheckCmd flags_negative = None \<and>
   sint (FlagTimestamp flags_negative) = - 1 \<and> sint (FlagTimeLock flags_negative) = - 50 \<and>
   (\<exists>msg. built (snd (CreateHTLC_Execute example_env flags_negative no_effects)) = [msg] \<and>
      fst (CreateHTLC_Execute example_env flags_negative no_effects) = None \<and>
      uint (MsgTimestamp msg) = 18446744073709551615 \<and>
      uint (MsgTimeLock msg) = 18446744073709551566)"
proof -
  have pre: "preCheckCmd flags_negative = None"
    by (simp add: preCheckCmd_def Changed_def flags_negative_def flags_neither_def)
  have to: "AccAddressFromBech32 example_env (FlagTo flags_negative) = Inr (map of_char ''recipient'')"
    by (simp add: example_env_def flags_negative_def flags_neither_def)
  have amount: "ParseCoins example_env (FlagAmount flags_negative) = Inr [(''100stake'', 1)]"
    by (simp add: example_env_def flags_negative_def flags_neither_def)
  have trim: "TrimSpace example_env key_a = key_a"
    by (simp add: TrimSpace_def asciiSpace_def key_a_def)
  have dec: "\<exists>hashLock. DecodeString key_a = Inr hashLock"
    by (simp add: key_a_def fromHexChar_def)
  then obtain hashLock where hl: "DecodeString key_a = Inr hashLock" ..
  have locks: "CreateHTLC_locks example_env flags_negative = Inr (replicate 32 0, hashLock)"
    using hl trim
    by (simp add: CreateHTLC_locks_def Changed_def GetString_def flags_negative_def flags_neither_def)
  have ts: "sint (FlagTimestamp flags_negative) = - 1"
    by (simp add: flags_negative_def flags_neither_def)
  have tl: "sint (FlagTimeLock flags_negative) = - 50"
    by (simp add: flags_negative_def flags_neither_def)
  obtain msg where m: "built (snd (CreateHTLC_Execute example_env flags_negative no_effects)) =
        built no_effects @ [msg]"
      "fst (CreateHTLC_Execute example_env flags_negative no_effects) =
         (case ValidateBasic example_env msg of
            Some err \<Rightarrow> Some err
          | None \<Rightarrow> GenerateOrBroadcastMsgs example_env [msg])"
      "sint (FlagTimestamp flags_negative) < 0 \<longrightarrow>
         uint (MsgTimestamp msg) = sint (FlagTimestamp flags_negative) + 2 ^ 64"
      "sint (FlagTimeLock flags_negative) < 0 \<longrightarrow>
         uint (MsgTimeLock msg) = sint (FlagTimeLock flags_negative) + 2 ^ 64"
    using create_converts_flags_unchecked [OF pre to amount locks, of no_effects] by blast
  have "built (snd (CreateHTLC_Execute example_env flags_negative no_effects)) =
          [NewMsgCreateHTLC (GetFromAddress example_env) (map of_char ''recipient'')
             (FlagReceiverOnOtherChain flags_negative) [(''100stake'', 1)] hashLock
             (uint64_of_int64 (FlagTimestamp flags_negative))
             (uint64_of_int64 (FlagTimeLock flags_negative))]"
    using CreateHTLC_RunE_built(1) [OF to amount locks refl, of no_effects] pre
    by (simp add: CreateHTLC_Execute_def no_effects_def)
  then have am: "MsgAmount msg = [(''100stake'', 1)]"
    using m(1) by (auto simp: no_effects_def NewMsgCreateHTLC_def)
  have "fst (CreateHTLC_Execute example_env flags_negative no_effects) = None"
    using m(2) am by (simp add: example_env_def)
  then show ?thesis
    using pre ts tl m by (auto simp: no_effects_def)
qed

end
